theory Spec2Isabelle
  imports Complex_Main "HOL-Library.Multiset" "HOL-Library.Char_ord" "HOL-Library.List_Lexorder"
    "HOL-Library.Product_Lexorder"
begin

section \<open>Conventions\<close>

text \<open>
  The three engines of the blood-bank backend (\<^verbatim>\<open>model1_prediction.py\<close>,
  \<^verbatim>\<open>model2_matching.py\<close>, \<^verbatim>\<open>model3_analytics.py\<close>) are embedded as HOL functions.

  \<^item> Python \<^verbatim>\<open>float\<close> values are modelled by \<^typ>\<open>real\<close>.  In the distance
    function, where an exception depends on it, every operation is followed by the rounding
    \<open>fl\<close> of the platform; elsewhere arithmetic is exact, and the statements are those
    that do not turn on a rounding error.
  \<^item> A table of the SQLite store is the list of its rows; a \<^verbatim>\<open>SELECT\<close> keeps the rows
    that satisfy the \<^verbatim>\<open>WHERE\<close> clause, in table order.
  \<^item> Exceptions are values: a function that can raise returns \<open>error + 'a\<close>.
  \<^item> What the code reads from the clock or delegates to a library whose result is not
    fixed by the source (date parsing, float rounding, the \<^verbatim>\<open>argsort\<close> of numpy) is a
    field of the record \<open>platform\<close>.
\<close>

datatype error = ValueError | KeyError

text \<open>
  The platform: \<open>strptime_ymd s\<close> is \<^verbatim>\<open>datetime.strptime(s, '%Y-%m-%d')\<close> as the day
  number (proleptic Gregorian ordinal) of the parsed date, \<open>None\<close> where it raises;
  \<open>today\<close> is the day number of \<^verbatim>\<open>datetime.now()\<close>; \<open>stamp\<close> is
  \<^verbatim>\<open>datetime.now().strftime('%Y%m%d%H%M%S')\<close>; \<open>sqlite_date k\<close> is the text SQLite
  returns for \<^verbatim>\<open>date('now', 'k days')\<close>; \<open>fl x\<close> is the float an operation returns
  whose exact result is \<open>x\<close>; \<open>argsort ks\<close> is \<^verbatim>\<open>numpy.argsort(ks, kind='quicksort')\<close>,
  the positions of \<open>ks\<close> in an order that sorts it.
\<close>

record platform =
  strptime_ymd :: "string \<Rightarrow> int option"
  today :: int
  stamp :: string
  sqlite_date :: "int \<Rightarrow> string"
  fl :: "real \<Rightarrow> real"
  argsort :: "real list \<Rightarrow> nat list"

text \<open>
  What is used of rounding to the nearest float: 0 and 1 are floats, rounding commutes
  with negation, and it is monotone.
\<close>

definition rounding :: "platform \<Rightarrow> bool" where
  "rounding p =
     (fl p 0 = 0 \<and> fl p 1 = 1 \<and> (\<forall>x. fl p (- x) = - fl p x)
      \<and> (\<forall>x y. x \<le> y \<longrightarrow> fl p x \<le> fl p y))"


text \<open>\<^verbatim>\<open>math.sqrt\<close>: raises \<^verbatim>\<open>ValueError\<close> on a negative argument.\<close>

definition py_sqrt :: "platform \<Rightarrow> real \<Rightarrow> error + real" where
  "py_sqrt p x = (if x < 0 then Inl ValueError else Inr (fl p (sqrt x)))"

text \<open>\<^verbatim>\<open>math.atan2(y, x)\<close>: the angle of the point \<open>(x, y)\<close>, in \<open>(-pi, pi]\<close>.\<close>

definition atan2 :: "real \<Rightarrow> real \<Rightarrow> real" where
  "atan2 y x =
     (if 0 < x then arctan (y / x)
      else if x < 0 \<and> 0 \<le> y then arctan (y / x) + pi
      else if x < 0 \<and> y < 0 then arctan (y / x) - pi
      else if 0 < y then pi / 2
      else if y < 0 then - (pi / 2)
      else 0)"

text \<open>\<^verbatim>\<open>math.radians\<close>.\<close>

definition radians :: "real \<Rightarrow> real" where
  "radians d = d * pi / 180"

text \<open>
  \<^verbatim>\<open>round(x, n)\<close>: the nearest multiple of \<open>10\<^sup>-\<^sup>n\<close>, a tie going to the even
  neighbour.  The code rounds the float it has computed, the model the exact value; at a
  decimal tie the two may take different neighbours, so the statements below use of a
  rounded value only that it is within half a unit of the last digit.
\<close>

definition round_half_even :: "real \<Rightarrow> int" where
  "round_half_even x =
     (let f = \<lfloor>x\<rfloor>; r = x - of_int f
      in if r < 1 / 2 then f
         else if 1 / 2 < r then f + 1
         else if even f then f else f + 1)"

definition py_round :: "real \<Rightarrow> nat \<Rightarrow> real" where
  "py_round x n = of_int (round_half_even (x * 10 ^ n)) / 10 ^ n"

text \<open>Python truthiness of an optional string argument: \<^verbatim>\<open>None\<close> and \<^verbatim>\<open>''\<close> are false.\<close>

definition truthy :: "string option \<Rightarrow> bool" where
  "truthy a = (case a of None \<Rightarrow> False | Some s \<Rightarrow> s \<noteq> [])"

text \<open>
  \<^verbatim>\<open>DataFrame.head(n)\<close>, the slice \<^verbatim>\<open>[:n]\<close>: the first \<open>n\<close> rows, and for a
  negative \<open>n\<close> all rows but the last \<open>-n\<close>.
\<close>

definition head :: "int \<Rightarrow> 'a list \<Rightarrow> 'a list" where
  "head n xs = (if 0 \<le> n then take (nat n) xs else take (length xs - nat (- n)) xs)"

section \<open>Model 2: donor matching (\<^verbatim>\<open>model2_matching.py\<close>)\<close>

subsection \<open>Compatibility table\<close>

text \<open>The dictionary literal of \<^verbatim>\<open>_get_compatible_blood_types\<close>, as an association list.\<close>

definition compatibility :: "(string \<times> string list) list" where
  "compatibility =
     [(''O-'', [''O-'']),
      (''O+'', [''O-'', ''O+'']),
      (''A-'', [''O-'', ''A-'']),
      (''A+'', [''O-'', ''O+'', ''A-'', ''A+'']),
      (''B-'', [''O-'', ''B-'']),
      (''B+'', [''O-'', ''O+'', ''B-'', ''B+'']),
      (''AB-'', [''O-'', ''A-'', ''B-'', ''AB-'']),
      (''AB+'', [''O-'', ''O+'', ''A-'', ''A+'', ''B-'', ''B+'', ''AB-'', ''AB+''])]"

text \<open>\<^verbatim>\<open>compatibility.get(blood_type, [blood_type])\<close>.\<close>

definition get_compatible_blood_types :: "string \<Rightarrow> string list" where
  "get_compatible_blood_types blood_type =
     (case map_of compatibility blood_type of
        Some donors \<Rightarrow> donors
      | None \<Rightarrow> [blood_type])"

text \<open>The eight members of the ABO/Rh set, for the statements about the table.\<close>

definition abo_rh_types :: "string list" where
  "abo_rh_types = [''O-'', ''O+'', ''A-'', ''A+'', ''B-'', ''B+'', ''AB-'', ''AB+'']"

subsection \<open>Great-circle distance\<close>

text \<open>
  \<^verbatim>\<open>_haversine_distance\<close>, every operation rounded.  The two calls of \<^verbatim>\<open>sqrt\<close>
  are evaluated left to right and either may raise.
\<close>

definition half_sine_squared :: "platform \<Rightarrow> real \<Rightarrow> real" where
  "half_sine_squared p d = fl p ((fl p (sin (fl p (d / 2))))\<^sup>2)"

definition haversine_a :: "platform \<Rightarrow> real \<Rightarrow> real \<Rightarrow> real \<Rightarrow> real \<Rightarrow> real" where
  "haversine_a p lat1 lon1 lat2 lon2 =
     (let dlat = fl p (lat2 - lat1); dlon = fl p (lon2 - lon1)
      in fl p (half_sine_squared p dlat
               + fl p (fl p (fl p (cos lat1) * fl p (cos lat2)) * half_sine_squared p dlon)))"

definition haversine_distance ::
  "platform \<Rightarrow> real \<Rightarrow> real \<Rightarrow> real \<Rightarrow> real \<Rightarrow> error + real" where
  "haversine_distance p lat1 lon1 lat2 lon2 =
     (let R = 6371;
          a = haversine_a p (fl p (radians lat1)) (fl p (radians lon1))
                (fl p (radians lat2)) (fl p (radians lon2))
      in case py_sqrt p a of
           Inl e \<Rightarrow> Inl e
         | Inr sa \<Rightarrow>
             (case py_sqrt p (fl p (1 - a)) of
                Inl e \<Rightarrow> Inl e
              | Inr sb \<Rightarrow> Inr (fl p (R * fl p (2 * fl p (atan2 sa sb))))))"

text \<open>
  The haversine formula as the specification names it, in exact arithmetic: the
  great-circle distance on a sphere of radius 6371 km, \<open>2 R arcsin (sqrt h)\<close> with
  \<open>h = hav (\<phi>\<^sub>2 - \<phi>\<^sub>1) + cos \<phi>\<^sub>1 cos \<phi>\<^sub>2 hav (\<lambda>\<^sub>2 - \<lambda>\<^sub>1)\<close>.
\<close>

definition hav :: "real \<Rightarrow> real" where
  "hav \<theta> = (sin (\<theta> / 2))\<^sup>2"

definition distanceKm :: "real \<Rightarrow> real \<Rightarrow> real \<Rightarrow> real \<Rightarrow> real" where
  "distanceKm lat1 lon1 lat2 lon2 =
     2 * 6371 * arcsin (sqrt (hav (radians lat2 - radians lat1)
        + cos (radians lat1) * cos (radians lat2) * hav (radians lon2 - radians lon1)))"

subsection \<open>Donor score\<close>

text \<open>A row of the table \<^verbatim>\<open>donors\<close>; the date column may be NULL.\<close>

record donor =
  donor_id :: string
  blood_type :: string
  location_lat :: real
  location_lng :: real
  last_donation_date :: "string option"
  is_available :: int

text \<open>A row of \<^verbatim>\<open>donors_df\<close> once the two computed columns are there.\<close>

record scored_donor =
  row :: donor
  distance_km :: real
  matching_score :: real

text \<open>
  \<^verbatim>\<open>DataFrame.sort_values('matching_score', ascending=False)\<close> on one column, as pandas
  computes it (\<^verbatim>\<open>nargsort\<close>): for a descending order the keys and their positions are
  reversed, the reversed keys are sorted ascending by \<^verbatim>\<open>argsort\<close>, and the positions
  found are reversed again.
\<close>

definition sort_values :: "platform \<Rightarrow> scored_donor list \<Rightarrow> scored_donor list" where
  "sort_values p df =
     (let items = map matching_score df;
          idx = [0..<length df];
          non_nans = rev items;
          non_nan_idx = rev idx;
          indexer = rev (map (\<lambda>i. non_nan_idx ! i) (argsort p non_nans))
      in map (\<lambda>i. df ! i) indexer)"


text \<open>
  The \<^verbatim>\<open>try\<close> block of \<^verbatim>\<open>_calculate_matching_score\<close>: \<open>None\<close> when it raises
  (the column is NULL, or the text is not a date), else \<^verbatim>\<open>days_since\<close>.  The parsed
  date is a midnight, so the \<^verbatim>\<open>.days\<close> of the difference is the difference of the day
  numbers.
\<close>

definition days_since :: "platform \<Rightarrow> string option \<Rightarrow> int option" where
  "days_since p last_donation =
     (case last_donation of
        None \<Rightarrow> None
      | Some s \<Rightarrow>
          (case strptime_ymd p s of
             None \<Rightarrow> None
           | Some last_date \<Rightarrow> Some (today p - last_date)))"

definition urgency_table :: "(string \<times> real) list" where
  "urgency_table = [(''CRITICAL'', 1.2), (''HIGH'', 1.1), (''MEDIUM'', 1.0), (''LOW'', 0.9)]"

definition calculate_matching_score ::
  "platform \<Rightarrow> string \<Rightarrow> string \<Rightarrow> real \<Rightarrow> string option \<Rightarrow> string \<Rightarrow> real" where
  "calculate_matching_score p donor_blood_type needed_blood_type distance last_donation urgency =
     (let blood_score =
            (if donor_blood_type = needed_blood_type then 1.0
             else if donor_blood_type \<in> set (get_compatible_blood_types needed_blood_type)
             then 0.7
             else 0.0);
          distance_score =
            (if distance \<le> 5 then 1.0
             else if distance \<le> 10 then 0.7
             else if distance \<le> 20 then 0.4
             else max 0.1 (1.0 - distance / 100));
          donation_score =
            (case days_since p last_donation of
               Some d \<Rightarrow> (if d \<ge> 90 then 1.0 else if d \<ge> 56 then 0.8 else 0.3)
             | None \<Rightarrow> 0.5);
          urgency_multiplier =
            (case map_of urgency_table urgency of Some m \<Rightarrow> m | None \<Rightarrow> 1.0);
          score = (blood_score * 0.4 + distance_score * 0.3 + donation_score * 0.2 + 0.1)
                    * urgency_multiplier
      in min score 1.0)"

text \<open>The terms of the score as the specification names them.\<close>

definition bloodScore :: "string \<Rightarrow> string \<Rightarrow> real" where
  "bloodScore donorType requestedType =
     (if donorType = requestedType then 1.0
      else if donorType \<in> set (get_compatible_blood_types requestedType) then 0.7
      else 0.0)"

definition distanceScore :: "real \<Rightarrow> real" where
  "distanceScore distance =
     (if distance \<le> 5 then 1.0
      else if distance \<le> 10 then 0.7
      else if distance \<le> 20 then 0.4
      else max 0.1 (1.0 - distance / 100))"

definition recencyScore :: "int option \<Rightarrow> real" where
  "recencyScore days =
     (case days of
        None \<Rightarrow> 0.5
      | Some d \<Rightarrow> (if d \<ge> 90 then 1.0 else if d \<ge> 56 then 0.8 else 0.3))"

definition urgencyMultiplier :: "string \<Rightarrow> real" where
  "urgencyMultiplier urgency =
     (if urgency = ''CRITICAL'' then 1.2
      else if urgency = ''HIGH'' then 1.1
      else if urgency = ''MEDIUM'' then 1.0
      else if urgency = ''LOW'' then 0.9
      else 1.0)"

text \<open>
  A platform for the examples: 15 February 2024, 10 o'clock; two dates that parse; exact
  arithmetic; an \<^verbatim>\<open>argsort\<close> by insertion.
\<close>

definition example_strptime :: "string \<Rightarrow> int option" where
  "example_strptime s =
     (if s = ''2023-12-10'' then Some 738864
      else if s = ''2024-01-20'' then Some 738905
      else None)"

definition example_sqlite_date :: "int \<Rightarrow> string" where
  "example_sqlite_date k =
     (if k = - 90 then ''2023-11-17''
      else if k = 30 then ''2024-03-16''
      else ''2024-02-15'')"

definition example_argsort :: "real list \<Rightarrow> nat list" where
  "example_argsort ks = sort_key (\<lambda>i. ks ! i) [0..<length ks]"

definition example_platform :: platform where
  "example_platform =
     \<lparr>strptime_ymd = example_strptime, today = 738931, stamp = ''20240215100000'',
      sqlite_date = example_sqlite_date, fl = (\<lambda>x. x), argsort = example_argsort\<rparr>"

subsection \<open>Matching service\<close>

text \<open>
  The query of \<^verbatim>\<open>match_donors\<close>:
  \<^verbatim>\<open>WHERE blood_type IN (compatible types) AND is_available = 1\<close>.
\<close>

definition query_donors :: "donor list \<Rightarrow> string list \<Rightarrow> donor list" where
  "query_donors donors compatible_types =
     filter (\<lambda>d. blood_type d \<in> set compatible_types \<and> is_available d = 1) donors"

definition generate_request_id :: "platform \<Rightarrow> string" where
  "generate_request_id p = ''REQ'' @ stamp p"

text \<open>The first \<^verbatim>\<open>apply\<close>: the distance of every row; the first exception ends it.\<close>

fun with_distance ::
  "platform \<Rightarrow> real \<Rightarrow> real \<Rightarrow> donor list \<Rightarrow> error + (donor \<times> real) list" where
  "with_distance p hospital_lat hospital_lng [] = Inr []"
| "with_distance p hospital_lat hospital_lng (d # ds) =
     (case haversine_distance p hospital_lat hospital_lng (location_lat d) (location_lng d) of
        Inl e \<Rightarrow> Inl e
      | Inr km \<Rightarrow>
          (case with_distance p hospital_lat hospital_lng ds of
             Inl e \<Rightarrow> Inl e
           | Inr rest \<Rightarrow> Inr ((d, km) # rest)))"

text \<open>The second \<^verbatim>\<open>apply\<close>: the score of a row.\<close>

definition with_score :: "platform \<Rightarrow> string \<Rightarrow> string \<Rightarrow> donor \<times> real \<Rightarrow> scored_donor" where
  "with_score p blood_type_needed urgency_level dk =
     \<lparr>row = fst dk, distance_km = snd dk,
      matching_score =
        calculate_matching_score p (blood_type (fst dk)) blood_type_needed (snd dk)
          (last_donation_date (fst dk)) urgency_level\<rparr>"

text \<open>An entry of \<^verbatim>\<open>matched_donors\<close>.\<close>

record matched_donor =
  matched_donor_id :: string
  matched_blood_type :: string
  matched_score :: real
  matched_distance_km :: real
  matched_latitude :: real
  matched_longitude :: real
  matched_last_donation_date :: "string option"
  matched_is_available :: bool

definition matched_entry :: "scored_donor \<Rightarrow> matched_donor" where
  "matched_entry s =
     \<lparr>matched_donor_id = donor_id (row s),
      matched_blood_type = blood_type (row s),
      matched_score = py_round (matching_score s) 2,
      matched_distance_km = py_round (distance_km s) 2,
      matched_latitude = location_lat (row s),
      matched_longitude = location_lng (row s),
      matched_last_donation_date = last_donation_date (row s),
      matched_is_available = (is_available (row s) \<noteq> 0)\<rparr>"

text \<open>
  The dictionary \<^verbatim>\<open>match_donors\<close> returns; a key that a branch does not set is
  \<open>None\<close>.
\<close>

record match_result =
  request_id :: string
  matched_donors :: "matched_donor list"
  total_matches :: nat
  result_message :: "string option"
  result_urgency_level :: "string option"

text \<open>
  \<^verbatim>\<open>match_donors\<close>.  \<open>donors\<close> is the table, \<open>hospital_location\<close> the dictionary
  of the request; \<^verbatim>\<open>hospital_id\<close> is not used by the code.
\<close>

definition match_donors ::
  "platform \<Rightarrow> donor list \<Rightarrow> string \<Rightarrow> string \<Rightarrow> int \<Rightarrow> (string \<rightharpoonup> real) \<Rightarrow> string
     \<Rightarrow> error + match_result" where
  "match_donors p donors hospital_id blood_type_needed units_needed hospital_location urgency_level =
     (let compatible_types = get_compatible_blood_types blood_type_needed;
          donors_df = query_donors donors compatible_types
      in if donors_df = [] then
           Inr \<lparr>request_id = generate_request_id p, matched_donors = [], total_matches = 0,
                result_message = Some ''No available donors found'',
                result_urgency_level = None\<rparr>
         else
           (case hospital_location ''latitude'' of
              None \<Rightarrow> Inl KeyError
            | Some hospital_lat \<Rightarrow>
                (case hospital_location ''longitude'' of
                   None \<Rightarrow> Inl KeyError
                 | Some hospital_lng \<Rightarrow>
                     (case with_distance p hospital_lat hospital_lng donors_df of
                        Inl e \<Rightarrow> Inl e
                      | Inr distances \<Rightarrow>
                          (let scored = map (with_score p blood_type_needed urgency_level) distances;
                               sorted_df = sort_values p scored;
                               top_donors = head (min 10 (units_needed * 2)) sorted_df;
                               matched = map matched_entry top_donors
                           in Inr \<lparr>request_id = generate_request_id p,
                                   matched_donors = matched,
                                   total_matches = length matched,
                                   result_message = None,
                                   result_urgency_level = Some urgency_level\<rparr>)))))"


text \<open>
  Donors and a request for the examples.  All donors are at the hospital's own
  coordinates, so their distance is 0; for a request of \<^verbatim>\<open>O+\<close> with urgency MEDIUM the
  scores of the first three are 0.96, 0.78 and 0.84.
\<close>

definition donor1 :: donor where
  "donor1 = \<lparr>donor_id = ''D001'', blood_type = ''O+'', location_lat = 30.0444,
     location_lng = 31.2357, last_donation_date = Some ''2023-12-10'', is_available = 1\<rparr>"



definition donor4 :: donor where
  "donor4 = \<lparr>donor_id = ''D004'', blood_type = ''O-'', location_lat = 30.0444,
     location_lng = 31.2357, last_donation_date = Some ''2024-01-20'', is_available = 0\<rparr>"

definition example_location :: "string \<rightharpoonup> real" where
  "example_location = [''latitude'' \<mapsto> 30.0444, ''longitude'' \<mapsto> 31.2357]"




section \<open>Model 1: shortage prediction (\<^verbatim>\<open>model1_prediction.py\<close>)\<close>

text \<open>
  \<^verbatim>\<open>_calculate_risk\<close>, lines 84 to 101: the local variables \<^verbatim>\<open>days_remaining\<close>,
  \<^verbatim>\<open>risk_score\<close> and \<^verbatim>\<open>risk_level\<close>.
\<close>

definition days_remaining :: "int \<Rightarrow> real \<Rightarrow> real" where
  "days_remaining current_units avg_daily_usage =
     (let avg_daily_usage = (if avg_daily_usage = 0 then 1 else avg_daily_usage)
      in of_int current_units / avg_daily_usage)"

definition risk :: "real \<Rightarrow> real \<times> string" where
  "risk days =
     (if days \<le> 3 then (min (0.90 + (3 - days) * 0.033) 1.0, ''CRITICAL'')
      else if days \<le> 7 then (0.60 + (7 - days) * 0.075, ''HIGH'')
      else if days \<le> 14 then (0.30 + (14 - days) * 0.043, ''MEDIUM'')
      else (max 0.10 (min 0.30 (30 / days)), ''LOW''))"

text \<open>
  The dictionary the function returns carries \<^verbatim>\<open>risk_level\<close> and the score rounded to
  two decimals; the rounding and the shortage date are not modelled.
\<close>

text \<open>The estimator as the specification words it.\<close>

datatype tier = LOW | MEDIUM | HIGH | CRITICAL

definition daysRemaining :: "real \<Rightarrow> real \<Rightarrow> real" where
  "daysRemaining currentUnits avgDailyUsage =
     currentUnits / (if avgDailyUsage = 0 then 1 else avgDailyUsage)"

definition riskLevel :: "real \<Rightarrow> tier" where
  "riskLevel days =
     (if days \<le> 3 then CRITICAL
      else if 3 < days \<and> days \<le> 7 then HIGH
      else if 7 < days \<and> days \<le> 14 then MEDIUM
      else LOW)"

definition riskScore :: "real \<Rightarrow> real" where
  "riskScore days =
     (case riskLevel days of
        CRITICAL \<Rightarrow> min (0.90 + (3 - days) * 0.033) 1.0
      | HIGH \<Rightarrow> 0.60 + (7 - days) * 0.075
      | MEDIUM \<Rightarrow> 0.30 + (14 - days) * 0.043
      | LOW \<Rightarrow> max 0.10 (min 0.30 (30 / days)))"

definition tier_name :: "tier \<Rightarrow> string" where
  "tier_name t =
     (case t of LOW \<Rightarrow> ''LOW'' | MEDIUM \<Rightarrow> ''MEDIUM'' | HIGH \<Rightarrow> ''HIGH''
      | CRITICAL \<Rightarrow> ''CRITICAL'')"

section \<open>Model 3: analytics (\<^verbatim>\<open>model3_analytics.py\<close>)\<close>

text \<open>
  The optional conditions of a query: \<^verbatim>\<open>if hospital_id: query += " AND hospital_id = ?"\<close>
  and its like.  Dates are compared as SQLite compares text, byte by byte.
\<close>

definition equals_filter :: "string option \<Rightarrow> string \<Rightarrow> bool" where
  "equals_filter a v = (if truthy a then a = Some v else True)"

definition since_filter :: "string option \<Rightarrow> string \<Rightarrow> bool" where
  "since_filter a v = (case a of None \<Rightarrow> True | Some s \<Rightarrow> if s = [] then True else s \<le> v)"

definition until_filter :: "string option \<Rightarrow> string \<Rightarrow> bool" where
  "until_filter a v = (case a of None \<Rightarrow> True | Some s \<Rightarrow> if s = [] then True else v \<le> s)"

subsection \<open>Waste rates\<close>

text \<open>A row of the table \<^verbatim>\<open>inventory_movements\<close>; the unit counts are not negative.\<close>

record movement =
  movement_hospital_id :: string
  movement_blood_type :: string
  units_collected :: nat
  units_used :: nat
  units_expired :: nat
  movement_date :: string

definition movement_rows ::
  "movement list \<Rightarrow> string option \<Rightarrow> string option \<Rightarrow> string option \<Rightarrow> string option
     \<Rightarrow> movement list" where
  "movement_rows movements hospital_id blood_type' start_date end_date =
     filter (\<lambda>m. equals_filter hospital_id (movement_hospital_id m)
                \<and> equals_filter blood_type' (movement_blood_type m)
                \<and> since_filter start_date (movement_date m)
                \<and> until_filter end_date (movement_date m)) movements"

definition movement_key :: "movement \<Rightarrow> string \<times> string" where
  "movement_key m = (movement_hospital_id m, movement_blood_type m)"

text \<open>\<^verbatim>\<open>get_status\<close>.\<close>

definition get_status :: "real \<Rightarrow> string" where
  "get_status rate =
     (if rate < 0.05 then ''LOW''
      else if rate < 0.10 then ''ACCEPTABLE''
      else if rate < 0.20 then ''HIGH''
      else ''CRITICAL'')"

text \<open>
  A row of \<^verbatim>\<open>df\<close>: the sums of a group, its waste rate and its status.  With counts
  that are not negative the division is defined and \<^verbatim>\<open>fillna(0)\<close> changes nothing.
\<close>

record waste_group =
  group_hospital_id :: string
  group_blood_type :: string
  total_collected :: nat
  total_used :: nat
  total_expired :: nat
  waste_rate :: real
  status :: string

definition waste_group_of :: "movement list \<Rightarrow> string \<times> string \<Rightarrow> waste_group" where
  "waste_group_of rows k =
     (let members = filter (\<lambda>m. movement_key m = k) rows;
          collected = sum_list (map units_collected members);
          used = sum_list (map units_used members);
          expired = sum_list (map units_expired members);
          rate = real expired / (real collected + 1)
      in \<lparr>group_hospital_id = fst k, group_blood_type = snd k,
          total_collected = collected, total_used = used, total_expired = expired,
          waste_rate = rate, status = get_status rate\<rparr>)"

text \<open>
  \<^verbatim>\<open>GROUP BY hospital_id, blood_type\<close>: one row for each key that occurs, in the order
  of the keys, as SQLite returns the groups.
\<close>

definition waste_frame :: "movement list \<Rightarrow> waste_group list" where
  "waste_frame rows = map (waste_group_of rows) (sort (remdups (map movement_key rows)))"

definition overall_rate :: "waste_group list \<Rightarrow> real" where
  "overall_rate df =
     real (sum_list (map total_expired df)) / (real (sum_list (map total_collected df)) + 1)"

text \<open>An entry of \<^verbatim>\<open>waste_rates\<close>.\<close>

record waste_entry =
  entry_hospital_id :: string
  entry_blood_type :: string
  entry_waste_rate :: real
  entry_units_expired :: nat
  entry_total_units :: nat
  entry_status :: string

definition waste_entry_of :: "waste_group \<Rightarrow> waste_entry" where
  "waste_entry_of g =
     \<lparr>entry_hospital_id = group_hospital_id g, entry_blood_type = group_blood_type g,
      entry_waste_rate = py_round (waste_rate g) 3,
      entry_units_expired = total_expired g, entry_total_units = total_collected g,
      entry_status = status g\<rparr>"

text \<open>
  \<^verbatim>\<open>_generate_waste_recommendations\<close>; a recommendation is kept as its content, not as
  the sentence that is printed.
\<close>

datatype recommendation =
  HighWasteRate real string string
  | OverallAboveThreshold
  | WithinLimits

definition generate_waste_recommendations :: "waste_group list \<Rightarrow> recommendation list" where
  "generate_waste_recommendations df =
     (let high_waste = filter (\<lambda>g. 0.15 < waste_rate g) df;
          recommendations =
            map (\<lambda>g. HighWasteRate (waste_rate g) (group_blood_type g) (group_hospital_id g))
              high_waste
            @ (if 0.10 < sum_list (map waste_rate df) / real (length df)
               then [OverallAboveThreshold] else [])
      in if recommendations = [] then [WithinLimits] else recommendations)"

record waste_report =
  waste_rates :: "waste_entry list"
  overall_waste_rate :: real
  total_expired_units :: "nat option"
  total_collected_units :: "nat option"
  recommendations :: "recommendation list"

definition calculate_waste_rates ::
  "movement list \<Rightarrow> string option \<Rightarrow> string option \<Rightarrow> string option \<Rightarrow> string option
     \<Rightarrow> waste_report" where
  "calculate_waste_rates movements hospital_id blood_type' start_date end_date =
     (let df = waste_frame (movement_rows movements hospital_id blood_type' start_date end_date)
      in if df = [] then
           \<lparr>waste_rates = [], overall_waste_rate = 0.0, total_expired_units = None,
            total_collected_units = None, recommendations = []\<rparr>
         else
           \<lparr>waste_rates = map waste_entry_of df,
            overall_waste_rate = py_round (overall_rate df) 3,
            total_expired_units = Some (sum_list (map total_expired df)),
            total_collected_units = Some (sum_list (map total_collected df)),
            recommendations = generate_waste_recommendations df\<rparr>)"

text \<open>The rate and its tiers as the specification words them.\<close>

definition wasteRate :: "nat \<Rightarrow> nat \<Rightarrow> real" where
  "wasteRate expired collected = real expired / (real collected + 1)"

definition wasteStatus :: "real \<Rightarrow> string" where
  "wasteStatus rate =
     (if rate < 0.05 then ''LOW''
      else if rate < 0.10 then ''ACCEPTABLE''
      else if rate < 0.20 then ''HIGH''
      else ''CRITICAL'')"

text \<open>Movements for the examples: one group with 250 units collected and 15 expired.\<close>

definition example_movements :: "movement list" where
  "example_movements =
     [\<lparr>movement_hospital_id = ''H001'', movement_blood_type = ''O+'', units_collected = 100,
       units_used = 90, units_expired = 5, movement_date = ''2024-01-10''\<rparr>,
      \<lparr>movement_hospital_id = ''H002'', movement_blood_type = ''A-'', units_collected = 40,
       units_used = 20, units_expired = 12, movement_date = ''2024-01-15''\<rparr>,
      \<lparr>movement_hospital_id = ''H001'', movement_blood_type = ''O+'', units_collected = 150,
       units_used = 120, units_expired = 10, movement_date = ''2024-02-01''\<rparr>]"

subsection \<open>Demand forecast\<close>

text \<open>Rows of the tables \<^verbatim>\<open>blood_usage_history\<close> and \<^verbatim>\<open>events\<close>.\<close>

record usage =
  usage_hospital_id :: string
  usage_blood_type :: string
  date_of_usage :: string
  usage_units_used :: nat

record event =
  event_name :: string
  event_date :: string
  impact_level :: real

text \<open>
  The first query: the usage of the last 90 days, with the optional conditions, grouped by
  hospital and blood type; a row of \<^verbatim>\<open>df\<close> is the average, the count and the peak
  of a group.
\<close>

definition usage_rows ::
  "platform \<Rightarrow> usage list \<Rightarrow> string option \<Rightarrow> string option \<Rightarrow> usage list" where
  "usage_rows p usage_history hospital_id blood_type' =
     filter (\<lambda>u. sqlite_date p (- 90) \<le> date_of_usage u
                \<and> equals_filter hospital_id (usage_hospital_id u)
                \<and> equals_filter blood_type' (usage_blood_type u)) usage_history"

definition usage_key :: "usage \<Rightarrow> string \<times> string" where
  "usage_key u = (usage_hospital_id u, usage_blood_type u)"

record demand_group =
  demand_hospital_id :: string
  demand_blood_type :: string
  avg_daily_demand :: real
  days_of_data :: nat
  peak_usage :: nat

definition demand_group_of :: "usage list \<Rightarrow> string \<times> string \<Rightarrow> demand_group" where
  "demand_group_of rows k =
     (let members = filter (\<lambda>u. usage_key u = k) rows
      in \<lparr>demand_hospital_id = fst k, demand_blood_type = snd k,
          avg_daily_demand =
            real (sum_list (map usage_units_used members)) / real (length members),
          days_of_data = length members,
          peak_usage = fold max (map usage_units_used members) 0\<rparr>)"

definition demand_frame :: "usage list \<Rightarrow> demand_group list" where
  "demand_frame rows = map (demand_group_of rows) (sort (remdups (map usage_key rows)))"

text \<open>
  The second query:
  \<^verbatim>\<open>WHERE event_date BETWEEN date('now') AND date('now', '+30 days')\<close>.
\<close>

definition upcoming_events :: "platform \<Rightarrow> event list \<Rightarrow> event list" where
  "upcoming_events p events =
     filter (\<lambda>e. sqlite_date p 0 \<le> event_date e \<and> event_date e \<le> sqlite_date p 30) events"

text \<open>\<^verbatim>\<open>_calculate_trend\<close>.\<close>

definition calculate_trend :: "string \<Rightarrow> string \<Rightarrow> string" where
  "calculate_trend hospital blood = ''STABLE''"

text \<open>The inner loop of \<^verbatim>\<open>forecast_demand\<close> and the local \<^verbatim>\<open>total_forecast\<close>.\<close>

definition event_adjustment :: "real \<Rightarrow> event list \<Rightarrow> real" where
  "event_adjustment avg events_df =
     foldl (\<lambda>adjustment e. adjustment + avg * (impact_level e - 1.0)) 0 events_df"

definition total_forecast :: "real \<Rightarrow> int \<Rightarrow> event list \<Rightarrow> real" where
  "total_forecast avg days events_df =
     (let base_forecast = avg * of_int days
      in base_forecast + event_adjustment avg events_df)"

text \<open>
  An entry of the list \<^verbatim>\<open>forecast_demand\<close> returns; the key
  \<^verbatim>\<open>next_{days}_days_forecast\<close> is kept as the number of days and the value.
\<close>

record forecast =
  forecast_hospital_id :: string
  forecast_blood_type :: string
  forecast_avg_daily_demand :: real
  forecast_days :: int
  next_days_forecast :: real
  demand_trend :: string
  peak_days :: "string list"
  confidence_level :: real

definition forecast_of :: "int \<Rightarrow> event list \<Rightarrow> demand_group \<Rightarrow> forecast" where
  "forecast_of days events_df g =
     \<lparr>forecast_hospital_id = demand_hospital_id g,
      forecast_blood_type = demand_blood_type g,
      forecast_avg_daily_demand = py_round (avg_daily_demand g) 2,
      forecast_days = days,
      next_days_forecast = py_round (total_forecast (avg_daily_demand g) days events_df) 1,
      demand_trend = calculate_trend (demand_hospital_id g) (demand_blood_type g),
      peak_days = [],
      confidence_level = (if 60 < days_of_data g then 0.85 else 0.65)\<rparr>"

definition forecast_demand ::
  "platform \<Rightarrow> usage list \<Rightarrow> event list \<Rightarrow> string option \<Rightarrow> string option \<Rightarrow> int
     \<Rightarrow> forecast list" where
  "forecast_demand p usage_history events hospital_id blood_type' days =
     (let df = demand_frame (usage_rows p usage_history hospital_id blood_type');
          events_df = upcoming_events p events
      in map (forecast_of days events_df) df)"

text \<open>Usage and events for the examples.\<close>

definition example_usage :: "usage list" where
  "example_usage =
     [\<lparr>usage_hospital_id = ''H001'', usage_blood_type = ''O+'', date_of_usage = ''2024-02-01'',
       usage_units_used = 10\<rparr>,
      \<lparr>usage_hospital_id = ''H001'', usage_blood_type = ''O+'', date_of_usage = ''2024-02-02'',
       usage_units_used = 14\<rparr>,
      \<lparr>usage_hospital_id = ''H001'', usage_blood_type = ''O+'', date_of_usage = ''2023-06-01'',
       usage_units_used = 50\<rparr>]"

definition example_events :: "event list" where
  "example_events =
     [\<lparr>event_name = ''Marathon'', event_date = ''2024-03-01'', impact_level = 1.5\<rparr>,
      \<lparr>event_name = ''Festival'', event_date = ''2024-06-01'', impact_level = 2.0\<rparr>]"

section \<open>Properties\<close>

subsection \<open>Compatibility table\<close>

text \<open>
  C4.  The lookup for \<^verbatim>\<open>'AB+'\<close> is the list of all eight ABO/Rh types, the lookup for
  \<^verbatim>\<open>'O-'\<close> is the one-element list \<^verbatim>\<open>['O-']\<close>, and a requested type outside the
  eight-member set is answered by the one-element list holding that type itself.
\<close>

theorem compatible_blood_types_table:
  "set (get_compatible_blood_types ''AB+'') = set abo_rh_types
   \<and> length (get_compatible_blood_types ''AB+'') = 8
   \<and> get_compatible_blood_types ''O-'' = [''O-'']
   \<and> (requested \<notin> set abo_rh_types \<longrightarrow> get_compatible_blood_types requested = [requested])"
  by (simp add: get_compatible_blood_types_def compatibility_def abo_rh_types_def)

theorem compatible_blood_types_table_witness:
  "''XY'' \<notin> set abo_rh_types
   \<and> set (get_compatible_blood_types ''AB+'') = set abo_rh_types
   \<and> length (get_compatible_blood_types ''AB+'') = 8
   \<and> get_compatible_blood_types ''O-'' = [''O-'']
   \<and> get_compatible_blood_types ''XY'' = [''XY'']"
  using compatible_blood_types_table [of "''XY''"]
  by (simp add: abo_rh_types_def)

subsection \<open>Donor score\<close>

lemma urgency_lookup:
  "(case map_of urgency_table urgency of Some m \<Rightarrow> m | None \<Rightarrow> 1.0) = urgencyMultiplier urgency"
  by (simp add: urgency_table_def urgencyMultiplier_def)

lemma recency_lookup:
  "(case ds of Some d \<Rightarrow> (if d \<ge> 90 then 1.0 else if d \<ge> 56 then 0.8 else 0.3) | None \<Rightarrow> 0.5)
     = recencyScore ds"
  by (simp add: recencyScore_def split: option.split)

lemma matching_score_unfold:
  "calculate_matching_score p donorType requestedType distance lastDonation urgency =
     min ((bloodScore donorType requestedType * 0.4
           + distanceScore distance * 0.3
           + recencyScore (days_since p lastDonation) * 0.2
           + 0.1) * urgencyMultiplier urgency) 1.0"
  by (simp only: calculate_matching_score_def Let_def urgency_lookup recency_lookup
      bloodScore_def distanceScore_def)

lemma bloodScore_bounds: "0 \<le> bloodScore d n \<and> bloodScore d n \<le> 1"
  by (simp add: bloodScore_def)

lemma distanceScore_bounds: "1 / 10 \<le> distanceScore x \<and> distanceScore x \<le> 1"
  by (auto simp: distanceScore_def max_def)

lemma recencyScore_bounds: "3 / 10 \<le> recencyScore ds \<and> recencyScore ds \<le> 1"
  by (simp add: recencyScore_def split: option.split)

lemma urgencyMultiplier_bounds:
  "9 / 10 \<le> urgencyMultiplier u \<and> urgencyMultiplier u \<le> 12 / 10"
  by (simp add: urgencyMultiplier_def)

text \<open>
  C1.  For every donor type, requested type, distance, last-donation date and urgency, the
  score is the weighted sum \<open>bloodScore * 0.4 + distanceScore * 0.3 + recencyScore * 0.2 + 0.1\<close>
  times the urgency multiplier, capped at 1.0, with the four terms as the specification
  defines them.  The recency term is that of the days from the parsed date to today; it is
  0.5 when the date is missing or does not parse.
\<close>

theorem matching_score_formula:
  "calculate_matching_score p donorType requestedType distance lastDonation urgency =
     min ((bloodScore donorType requestedType * 0.4
           + distanceScore distance * 0.3
           + recencyScore
               (case lastDonation of
                  None \<Rightarrow> None
                | Some text \<Rightarrow>
                    (case strptime_ymd p text of
                       None \<Rightarrow> None
                     | Some lastDate \<Rightarrow> Some (today p - lastDate))) * 0.2
           + 0.1) * urgencyMultiplier urgency) 1.0"
  by (simp only: calculate_matching_score_def days_since_def Let_def urgency_lookup
      recency_lookup bloodScore_def distanceScore_def)

text \<open>
  C3.  The score lies in \<open>[0, 1]\<close>: it is capped at 1.0, and it is at least 0.171, since
  the blood-type term is at least 0, the distance term at least 0.1, the recency term at least
  0.3, the base term is 0.1 and the multiplier is at least 0.9.  This holds for every
  distance, the non-negative ones included.
\<close>

theorem matching_score_bounds:
  "0 \<le> calculate_matching_score p donorType requestedType distance lastDonation urgency
   \<and> 171 / 1000 \<le> calculate_matching_score p donorType requestedType distance lastDonation urgency
   \<and> calculate_matching_score p donorType requestedType distance lastDonation urgency \<le> 1"
proof -
  let ?b = "bloodScore donorType requestedType"
  let ?d = "distanceScore distance"
  let ?r = "recencyScore (days_since p lastDonation)"
  let ?u = "urgencyMultiplier urgency"
  let ?s = "?b * 0.4 + ?d * 0.3 + ?r * 0.2 + 0.1"
  have s: "19 / 100 \<le> ?s"
    using bloodScore_bounds [of donorType requestedType] distanceScore_bounds [of distance]
      recencyScore_bounds [of "days_since p lastDonation"]
    by simp
  have u: "9 / 10 \<le> ?u"
    using urgencyMultiplier_bounds [of urgency] by simp
  have "(19 / 100) * (9 / 10) \<le> ?s * ?u"
    using s u by (intro mult_mono) simp_all
  then have low: "171 / 1000 \<le> ?s * ?u"
    by simp
  have eq: "calculate_matching_score p donorType requestedType distance lastDonation urgency
      = min (?s * ?u) 1.0"
    by (rule matching_score_unfold)
  show ?thesis
    unfolding eq using low by simp
qed

subsection \<open>Great-circle distance\<close>

lemma fl_nonneg: "rounding p \<Longrightarrow> 0 \<le> x \<Longrightarrow> 0 \<le> fl p x"
  unfolding rounding_def by (metis (full_types))

lemma half_sine_squared_zero: "rounding p \<Longrightarrow> half_sine_squared p 0 = 0"
  by (simp add: half_sine_squared_def rounding_def)

lemma half_sine_squared_minus:
  assumes "rounding p"
  shows "half_sine_squared p (- d) = half_sine_squared p d"
proof -
  have n: "fl p (- x) = - fl p x" for x
    using assms by (simp add: rounding_def)
  have "fl p (sin (fl p (- d / 2))) = - fl p (sin (fl p (d / 2)))"
    using n [of "d / 2"] n [of "sin (fl p (d / 2))"] by simp
  then show ?thesis
    by (simp add: half_sine_squared_def)
qed

lemma haversine_a_same:
  assumes "rounding p"
  shows "haversine_a p lat lon lat lon = 0"
proof -
  have z: "fl p 0 = 0"
    using assms by (simp add: rounding_def)
  show ?thesis
    by (simp add: haversine_a_def z half_sine_squared_zero [OF assms])
qed

lemma haversine_a_sym:
  assumes "rounding p"
  shows "haversine_a p lat1 lon1 lat2 lon2 = haversine_a p lat2 lon2 lat1 lon1"
proof -
  have n: "fl p (- x) = - fl p x" for x
    using assms by (simp add: rounding_def)
  have d: "fl p (b - a) = - fl p (a - b)" for a b
    using n [of "a - b"] by simp
  show ?thesis
    by (simp add: haversine_a_def Let_def d [of lat2 lat1] d [of lon2 lon1]
        half_sine_squared_minus [OF assms] mult.commute)
qed

lemma atan2_nonneg: "0 \<le> y \<Longrightarrow> 0 \<le> x \<Longrightarrow> 0 \<le> atan2 y x"
  by (simp add: atan2_def)

lemma haversine_distance_same:
  assumes "rounding p"
  shows "haversine_distance p lat lon lat lon = Inr 0"
proof -
  have z: "fl p 0 = 0" "fl p 1 = 1"
    using assms by (simp_all add: rounding_def)
  show ?thesis
    by (simp add: haversine_distance_def Let_def haversine_a_same [OF assms] py_sqrt_def z
        atan2_def)
qed

lemma haversine_distance_sym:
  assumes "rounding p"
  shows "haversine_distance p lat1 lon1 lat2 lon2 = haversine_distance p lat2 lon2 lat1 lon1"
  by (simp only: haversine_distance_def
      haversine_a_sym [OF assms, of "fl p (radians lat1)" "fl p (radians lon1)"])

text \<open>
  The function raises exactly when the rounded \<open>a\<close>, or the rounded \<open>1 - a\<close>, is
  negative; a value it returns is not negative.
\<close>

lemma haversine_distance_cases:
  assumes "rounding p"
  shows "case haversine_distance p lat1 lon1 lat2 lon2 of
      Inr d \<Rightarrow> 0 \<le> d
        \<and> 0 \<le> haversine_a p (fl p (radians lat1)) (fl p (radians lon1))
                  (fl p (radians lat2)) (fl p (radians lon2))
        \<and> 0 \<le> fl p (1 - haversine_a p (fl p (radians lat1)) (fl p (radians lon1))
                  (fl p (radians lat2)) (fl p (radians lon2)))
    | Inl e \<Rightarrow> e = ValueError
        \<and> (haversine_a p (fl p (radians lat1)) (fl p (radians lon1))
                  (fl p (radians lat2)) (fl p (radians lon2)) < 0
           \<or> fl p (1 - haversine_a p (fl p (radians lat1)) (fl p (radians lon1))
                  (fl p (radians lat2)) (fl p (radians lon2))) < 0)"
proof -
  let ?a = "haversine_a p (fl p (radians lat1)) (fl p (radians lon1))
                  (fl p (radians lat2)) (fl p (radians lon2))"
  show ?thesis
  proof (cases "?a < 0 \<or> fl p (1 - ?a) < 0")
    case True
    then show ?thesis
      by (auto simp: haversine_distance_def Let_def py_sqrt_def)
  next
    case False
    then have a: "0 \<le> ?a" "0 \<le> fl p (1 - ?a)"
      by simp_all
    have "0 \<le> atan2 (fl p (sqrt ?a)) (fl p (sqrt (fl p (1 - ?a))))"
      using a by (intro atan2_nonneg fl_nonneg [OF assms]) simp_all
    then have "0 \<le> fl p (6371 * fl p (2 * fl p (atan2 (fl p (sqrt ?a)) (fl p (sqrt (fl p (1 - ?a)))))))"
      by (intro fl_nonneg [OF assms] mult_nonneg_nonneg) simp_all
    then show ?thesis
      using a by (simp add: haversine_distance_def Let_def py_sqrt_def)
  qed
qed

lemma sin_half_sq: "(sin (x / 2))\<^sup>2 = (1 - cos x) / 2" for x :: real
  using cos_double_sin [of "x / 2"] by simp

lemma cos_prod_upper: "cos u * cos v \<le> 1 - (sin ((v - u) / 2))\<^sup>2" for u v :: real
proof -
  have "cos u * cos v = (cos (u - v) + cos (u + v)) / 2"
    by (rule cos_times_cos)
  also have "\<dots> \<le> (cos (u - v) + 1) / 2"
    by simp
  also have "\<dots> = 1 - (1 - cos (v - u)) / 2"
    using cos_minus [of "v - u"] by (simp add: field_simps)
  finally show ?thesis
    by (simp add: sin_half_sq)
qed

lemma cos_prod_lower: "- (sin ((v - u) / 2))\<^sup>2 \<le> cos u * cos v" for u v :: real
proof -
  have "- (sin ((v - u) / 2))\<^sup>2 = (cos (v - u) - 1) / 2"
    by (simp add: sin_half_sq field_simps)
  also have "\<dots> = (cos (u - v) - 1) / 2"
    using cos_minus [of "v - u"] by simp
  also have "\<dots> \<le> (cos (u - v) + cos (u + v)) / 2"
    by simp
  also have "\<dots> = cos u * cos v"
    by (rule cos_times_cos [symmetric])
  finally show ?thesis .
qed

text \<open>In exact arithmetic the argument of neither square root is negative.\<close>

lemma hav_sum_range:
  "0 \<le> hav (lat2 - lat1) + cos lat1 * cos lat2 * hav (lon2 - lon1)
   \<and> hav (lat2 - lat1) + cos lat1 * cos lat2 * hav (lon2 - lon1) \<le> 1"
proof -
  define s where "s = (sin ((lat2 - lat1) / 2))\<^sup>2"
  define t where "t = (sin ((lon2 - lon1) / 2))\<^sup>2"
  define c where "c = cos lat1 * cos lat2"
  have a: "hav (lat2 - lat1) + cos lat1 * cos lat2 * hav (lon2 - lon1) = s + c * t"
    by (simp add: hav_def s_def t_def c_def)
  have s: "0 \<le> s" "s \<le> 1" and t: "0 \<le> t" "t \<le> 1"
    by (simp_all add: s_def t_def abs_square_le_1)
  have c: "- s \<le> c" "c \<le> 1 - s"
    using cos_prod_lower [of lat2 lat1] cos_prod_upper [of lat1 lat2] by (simp_all add: s_def c_def)
  show ?thesis
  proof (cases "0 \<le> c")
    case True
    then have "0 \<le> c * t" "c * t \<le> c * 1"
      using t mult_left_mono [of t 1 c] by simp_all
    then show ?thesis
      using a s c by simp
  next
    case False
    then have "c * 1 \<le> c * t" "c * t \<le> 0"
      using t mult_left_mono_neg [of t 1 c] by (simp_all add: mult_nonpos_nonneg)
    then show ?thesis
      using a s c by simp
  qed
qed

lemma atan2_sqrt_arcsin:
  assumes "0 \<le> a" and "a \<le> 1"
  shows "atan2 (sqrt a) (sqrt (1 - a)) = arcsin (sqrt a)"
proof (cases "a = 1")
  case True
  then show ?thesis
    by (simp add: atan2_def)
next
  case False
  with assms have lt: "a < 1"
    by simp
  then have pos: "0 < sqrt (1 - a)"
    by simp
  have "sqrt a < 1"
    using lt assms by (simp add: real_sqrt_lt_1_iff)
  moreover have "- 1 < sqrt a"
    using real_sqrt_ge_zero [OF assms(1)] by linarith
  ultimately have "arcsin (sqrt a) = arctan (sqrt a / sqrt (1 - (sqrt a)\<^sup>2))"
    by (rule arcsin_arctan [rotated])
  then show ?thesis
    using pos assms by (simp add: atan2_def)
qed

lemma haversine_a_exact:
  assumes "fl p = (\<lambda>x. x)"
  shows "haversine_a p lat1 lon1 lat2 lon2
    = hav (lat2 - lat1) + cos lat1 * cos lat2 * hav (lon2 - lon1)"
  by (simp add: haversine_a_def half_sine_squared_def hav_def assms)

lemma haversine_distance_exact:
  assumes "fl p = (\<lambda>x. x)"
  shows "haversine_distance p lat1 lon1 lat2 lon2 = Inr (distanceKm lat1 lon1 lat2 lon2)
    \<and> 0 \<le> distanceKm lat1 lon1 lat2 lon2"
proof -
  let ?h = "hav (radians lat2 - radians lat1)
    + cos (radians lat1) * cos (radians lat2) * hav (radians lon2 - radians lon1)"
  have r: "0 \<le> ?h" "?h \<le> 1"
    using hav_sum_range [of "radians lat2" "radians lat1" "radians lon2" "radians lon1"]
    by simp_all
  have a: "haversine_a p (radians lat1) (radians lon1) (radians lat2) (radians lon2) = ?h"
    by (rule haversine_a_exact [OF assms])
  have d: "distanceKm lat1 lon1 lat2 lon2 = 2 * 6371 * arcsin (sqrt ?h)"
    by (simp add: distanceKm_def)
  have "haversine_distance p lat1 lon1 lat2 lon2 = Inr (6371 * (2 * atan2 (sqrt ?h) (sqrt (1 - ?h))))"
    using r by (simp add: haversine_distance_def Let_def py_sqrt_def assms a)
  then have v: "haversine_distance p lat1 lon1 lat2 lon2 = Inr (distanceKm lat1 lon1 lat2 lon2)"
    by (simp add: d atan2_sqrt_arcsin [OF r])
  have "rounding p"
    by (simp add: rounding_def assms)
  from haversine_distance_cases [OF this, of lat1 lon1 lat2 lon2]
  have "0 \<le> distanceKm lat1 lon1 lat2 lon2"
    by (simp add: v)
  with v show ?thesis
    by simp
qed

text \<open>
  C6.  For a rounding with the properties of rounding to the nearest float, the distance
  from a coordinate pair to itself is 0 and the distance is symmetric.  The function raises
  \<^verbatim>\<open>ValueError\<close> exactly when the rounded \<open>a\<close>, or the rounded \<open>1 - a\<close>, is negative;
  a value it returns is not negative.  In exact arithmetic it never raises, and the value is
  the one of the haversine formula with radius 6371 km.
\<close>

theorem haversine_distance_properties:
  "(rounding p \<longrightarrow>
      haversine_distance p lat1 lon1 lat1 lon1 = Inr 0
    \<and> haversine_distance p lat1 lon1 lat2 lon2 = haversine_distance p lat2 lon2 lat1 lon1
    \<and> (case haversine_distance p lat1 lon1 lat2 lon2 of
          Inr d \<Rightarrow> 0 \<le> d
            \<and> 0 \<le> haversine_a p (fl p (radians lat1)) (fl p (radians lon1))
                      (fl p (radians lat2)) (fl p (radians lon2))
            \<and> 0 \<le> fl p (1 - haversine_a p (fl p (radians lat1)) (fl p (radians lon1))
                      (fl p (radians lat2)) (fl p (radians lon2)))
        | Inl e \<Rightarrow> e = ValueError
            \<and> (haversine_a p (fl p (radians lat1)) (fl p (radians lon1))
                      (fl p (radians lat2)) (fl p (radians lon2)) < 0
               \<or> fl p (1 - haversine_a p (fl p (radians lat1)) (fl p (radians lon1))
                      (fl p (radians lat2)) (fl p (radians lon2))) < 0)))
   \<and> (fl p = (\<lambda>x. x) \<longrightarrow>
        haversine_distance p lat1 lon1 lat2 lon2 = Inr (distanceKm lat1 lon1 lat2 lon2)
      \<and> 0 \<le> distanceKm lat1 lon1 lat2 lon2)"
proof (intro conjI impI)
  assume r: "rounding p"
  show "haversine_distance p lat1 lon1 lat1 lon1 = Inr 0"
    by (rule haversine_distance_same [OF r])
  show "haversine_distance p lat1 lon1 lat2 lon2 = haversine_distance p lat2 lon2 lat1 lon1"
    by (rule haversine_distance_sym [OF r])
  show "case haversine_distance p lat1 lon1 lat2 lon2 of
          Inr d \<Rightarrow> 0 \<le> d
            \<and> 0 \<le> haversine_a p (fl p (radians lat1)) (fl p (radians lon1))
                      (fl p (radians lat2)) (fl p (radians lon2))
            \<and> 0 \<le> fl p (1 - haversine_a p (fl p (radians lat1)) (fl p (radians lon1))
                      (fl p (radians lat2)) (fl p (radians lon2)))
        | Inl e \<Rightarrow> e = ValueError
            \<and> (haversine_a p (fl p (radians lat1)) (fl p (radians lon1))
                      (fl p (radians lat2)) (fl p (radians lon2)) < 0
               \<or> fl p (1 - haversine_a p (fl p (radians lat1)) (fl p (radians lon1))
                      (fl p (radians lat2)) (fl p (radians lon2))) < 0)"
    by (rule haversine_distance_cases [OF r])
next
  assume e: "fl p = (\<lambda>x. x)"
  from haversine_distance_exact [OF e]
  show "haversine_distance p lat1 lon1 lat2 lon2 = Inr (distanceKm lat1 lon1 lat2 lon2)"
    by (rule conjunct1)
  from haversine_distance_exact [OF e]
  show "0 \<le> distanceKm lat1 lon1 lat2 lon2"
    by (rule conjunct2)
qed

theorem haversine_distance_properties_witness:
  "rounding example_platform \<and> fl example_platform = (\<lambda>x. x)
   \<and> haversine_distance example_platform 30.0444 31.2357 30.0444 31.2357 = Inr 0
   \<and> haversine_distance example_platform 30.0444 31.2357 30.05 31.24
       = haversine_distance example_platform 30.05 31.24 30.0444 31.2357
   \<and> haversine_distance example_platform 30.0444 31.2357 30.05 31.24
       = Inr (distanceKm 30.0444 31.2357 30.05 31.24)
   \<and> 0 \<le> distanceKm 30.0444 31.2357 30.05 31.24"
proof -
  have r: "rounding example_platform" and e: "fl example_platform = (\<lambda>x. x)"
    by (simp_all add: rounding_def example_platform_def)
  note t = haversine_distance_properties [of example_platform "30.0444" "31.2357" "30.05"
      "31.24"]
  note a = t [THEN conjunct1, rule_format, OF r]
  note b = t [THEN conjunct2, rule_format, OF e]
  from r e a [THEN conjunct1] a [THEN conjunct2, THEN conjunct1] b [THEN conjunct1]
    b [THEN conjunct2]
  show ?thesis
    by (intro conjI)
qed

subsection \<open>Shortage estimator\<close>

lemma risk_refines: "risk days = (riskScore days, tier_name (riskLevel days))"
  by (simp add: risk_def riskScore_def riskLevel_def tier_name_def)

lemma days_remaining_refines: "days_remaining cu adu = daysRemaining (of_int cu) adu"
  by (simp add: days_remaining_def daysRemaining_def)

text \<open>
  C5.  The estimator replaces a usage of 0 by 1 and computes
  \<open>daysRemaining = currentUnits / avgDailyUsage\<close>; from the days it has computed it
  assigns the tier and the score of the four ranges: CRITICAL up to 3 days, HIGH up to 7,
  MEDIUM up to 14, LOW beyond, each with its formula.  \<open>estimate(15, 3.0)\<close> has 5 days,
  tier HIGH and score 0.75; \<open>estimate(8, 4.0)\<close> has 2 days, tier CRITICAL and score
  \<open>min(0.90 + 0.033, 1.0) = 0.933\<close>.
\<close>

theorem shortage_estimate:
  "days_remaining currentUnits avgDailyUsage = daysRemaining (of_int currentUnits) avgDailyUsage
   \<and> risk days = (riskScore days, tier_name (riskLevel days))
   \<and> days_remaining 15 3.0 = 5 \<and> risk 5 = (0.75, ''HIGH'')
   \<and> days_remaining 8 4.0 = 2 \<and> risk 2 = (min (0.90 + 0.033) 1.0, ''CRITICAL'')
   \<and> min (0.90 + 0.033) 1.0 = (0.933::real)"
proof -
  have ex: "days_remaining 15 3.0 = 5" "risk 5 = (0.75, ''HIGH'')"
    "days_remaining 8 4.0 = 2" "risk 2 = (min (0.90 + 0.033) 1.0, ''CRITICAL'')"
    "min (0.90 + 0.033) 1.0 = (0.933::real)"
    by (simp_all add: days_remaining_def risk_def)
  from days_remaining_refines [of currentUnits avgDailyUsage] risk_refines [of days] ex
  show ?thesis
    by (intro conjI)
qed

lemma critical_range: "d \<le> 3 \<Longrightarrow> 9 / 10 \<le> min (0.90 + (3 - d) * 0.033) (1.0::real)"
  by (simp add: min_def field_simps)

lemma high_range:
  "3 < d \<Longrightarrow> d \<le> 7 \<Longrightarrow>
     6 / 10 \<le> 0.60 + (7 - d) * (0.075::real) \<and> 0.60 + (7 - d) * (0.075::real) < 9 / 10"
  by (simp add: field_simps)

lemma medium_range:
  "7 < d \<Longrightarrow> d \<le> 14 \<Longrightarrow>
     3 / 10 \<le> 0.30 + (14 - d) * (0.043::real) \<and> 0.30 + (14 - d) * (0.043::real) < 601 / 1000"
  by (simp add: field_simps)

lemma low_range:
  "1 / 10 \<le> max 0.10 (min 0.30 (30 / d)) \<and> max 0.10 (min 0.30 (30 / d)) \<le> (3 / 10::real)"
  by (simp add: max_def min_def)

lemma risk_critical:
  assumes "snd (risk d) = ''CRITICAL''"
  shows "9 / 10 \<le> fst (risk d) \<and> fst (risk d) \<le> 1"
proof -
  from assms have d: "d \<le> 3"
    by (simp add: risk_def split: if_splits)
  then have "fst (risk d) = min (0.90 + (3 - d) * 0.033) 1.0"
    by (simp add: risk_def)
  with critical_range [OF d] show ?thesis
    by simp
qed

lemma risk_high_medium:
  assumes "snd (risk d) = ''HIGH'' \<or> snd (risk d) = ''MEDIUM''"
  shows "3 / 10 \<le> fst (risk d) \<and> fst (risk d) < 9 / 10"
proof -
  from assms have d: "3 < d" "d \<le> 14"
    by (auto simp: risk_def split: if_splits)
  show ?thesis
  proof (cases "d \<le> 7")
    case True
    then have "fst (risk d) = 0.60 + (7 - d) * 0.075"
      using d by (simp add: risk_def)
    with high_range [OF d(1) True] show ?thesis
      by simp
  next
    case False
    then have "fst (risk d) = 0.30 + (14 - d) * 0.043"
      using d by (simp add: risk_def)
    with medium_range [of d] False d show ?thesis
      by simp
  qed
qed

lemma risk_low:
  assumes "snd (risk d) = ''LOW''"
  shows "1 / 10 \<le> fst (risk d) \<and> fst (risk d) \<le> 3 / 10"
proof -
  from assms have "14 < d"
    by (simp add: risk_def split: if_splits)
  then have "fst (risk d) = max 0.10 (min 0.30 (30 / d))"
    by (simp add: risk_def)
  with low_range [of d] show ?thesis
    by simp
qed

lemma risk_level_cases:
  "snd (risk d) = ''CRITICAL'' \<or> snd (risk d) = ''HIGH'' \<or> snd (risk d) = ''MEDIUM''
   \<or> snd (risk d) = ''LOW''"
  by (simp add: risk_def)

lemma risk_score_range: "1 / 10 \<le> fst (risk d) \<and> fst (risk d) \<le> 1"
  using risk_level_cases [of d] risk_critical [of d] risk_high_medium [of d] risk_low [of d]
  by linarith

text \<open>
  C10, as stated, puts the scores of the HIGH and MEDIUM branches in the open interval
  \<open>(0.30, 0.91)\<close>.  With 14 units in stock and a usage of 1 a day there are exactly 14 days
  left; the branch is MEDIUM and its score is \<open>0.30 + 0 * 0.043 = 0.30\<close>, the excluded end
  of that interval.
\<close>

theorem risk_score_open_interval_counterexample:
  "snd (risk (days_remaining 14 1)) = ''MEDIUM''
   \<and> fst (risk (days_remaining 14 1)) = 0.30
   \<and> \<not> (0.30 < fst (risk (days_remaining 14 1)) \<and> fst (risk (days_remaining 14 1)) < 0.91)"
  by (simp add: days_remaining_def risk_def)

text \<open>
  C10, amended.  For stock and usage not negative the score before rounding lies in
  \<open>[0.10, 1.0]\<close>: in the CRITICAL branch in \<open>[0.90, 1.0]\<close>, in the HIGH and MEDIUM
  branches in the half-open \<open>[0.30, 0.91)\<close>, in the LOW branch in \<open>[0.10, 0.30]\<close>.
\<close>

theorem risk_score_interval:
  assumes "0 \<le> units" and "0 \<le> usage"
  shows "0.10 \<le> fst (risk (days_remaining units usage))
    \<and> fst (risk (days_remaining units usage)) \<le> 1.0
    \<and> (snd (risk (days_remaining units usage)) = ''CRITICAL'' \<longrightarrow>
          0.90 \<le> fst (risk (days_remaining units usage))
          \<and> fst (risk (days_remaining units usage)) \<le> 1.0)
    \<and> (snd (risk (days_remaining units usage)) = ''HIGH''
        \<or> snd (risk (days_remaining units usage)) = ''MEDIUM'' \<longrightarrow>
          0.30 \<le> fst (risk (days_remaining units usage))
          \<and> fst (risk (days_remaining units usage)) < 0.91)
    \<and> (snd (risk (days_remaining units usage)) = ''LOW'' \<longrightarrow>
          0.10 \<le> fst (risk (days_remaining units usage))
          \<and> fst (risk (days_remaining units usage)) \<le> 0.30)"
proof -
  let ?d = "days_remaining units usage"
  show ?thesis
    using risk_score_range [of ?d] risk_critical [of ?d] risk_high_medium [of ?d] risk_low [of ?d]
    by auto
qed

theorem risk_score_interval_witness:
  "(0::int) \<le> 15 \<and> (0::real) \<le> 3
   \<and> snd (risk (days_remaining 15 3)) = ''HIGH''
   \<and> 0.10 \<le> fst (risk (days_remaining 15 3)) \<and> fst (risk (days_remaining 15 3)) \<le> 1.0
   \<and> 0.30 \<le> fst (risk (days_remaining 15 3)) \<and> fst (risk (days_remaining 15 3)) < 0.91"
proof -
  have l: "snd (risk (days_remaining 15 3)) = ''HIGH''"
    by (simp add: days_remaining_def risk_def)
  show ?thesis
    using risk_score_interval [of 15 3] l by simp
qed

subsection \<open>Matching service\<close>

lemma round_half_even_near: "\<bar>of_int (round_half_even y) - y\<bar> \<le> 1 / 2"
proof -
  have f: "of_int \<lfloor>y\<rfloor> \<le> y" "y < of_int \<lfloor>y\<rfloor> + 1"
    by linarith+
  show ?thesis
    using f by (auto simp: round_half_even_def Let_def)
qed

text \<open>A rounded value is within half a unit of the last digit kept.\<close>

lemma py_round_near: "\<bar>py_round x n - x\<bar> \<le> 1 / (2 * 10 ^ n)"
proof -
  have "\<bar>py_round x n - x\<bar> = \<bar>of_int (round_half_even (x * 10 ^ n)) - x * 10 ^ n\<bar> / 10 ^ n"
    by (simp add: py_round_def field_simps abs_divide)
  also have "\<dots> \<le> (1 / 2) / 10 ^ n"
    using round_half_even_near [of "x * 10 ^ n"] by (intro divide_right_mono) simp_all
  finally show ?thesis
    by simp
qed





















text \<open>
  C7.  When the query for available donors of a compatible type returns no row,
  \<^verbatim>\<open>match_donors\<close> does not raise: it returns a result with an empty list of matched
  donors, \<open>total_matches = 0\<close> and the message \<^verbatim>\<open>No available donors found\<close>.
\<close>

theorem match_donors_no_donors:
  assumes "query_donors donors (get_compatible_blood_types blood_type_needed) = []"
  shows "match_donors p donors hospital blood_type_needed units_needed location urgency_level =
     Inr \<lparr>request_id = generate_request_id p, matched_donors = [], total_matches = 0,
          result_message = Some ''No available donors found'', result_urgency_level = None\<rparr>"
  using assms by (simp add: match_donors_def)

theorem match_donors_no_donors_witness:
  "query_donors [donor1, donor4] (get_compatible_blood_types ''O-'') = []
   \<and> match_donors example_platform [donor1, donor4] ''H001'' ''O-'' 2 example_location ''CRITICAL''
       = Inr \<lparr>request_id = ''REQ20240215100000'', matched_donors = [], total_matches = 0,
              result_message = Some ''No available donors found'', result_urgency_level = None\<rparr>"
proof -
  have q: "query_donors [donor1, donor4] (get_compatible_blood_types ''O-'') = []"
    by (simp add: query_donors_def get_compatible_blood_types_def compatibility_def
        donor1_def donor4_def)
  show ?thesis
    using match_donors_no_donors [OF q, of example_platform "''H001''" 2 example_location
        "''CRITICAL''"] q
    by (simp add: generate_request_id_def example_platform_def)
qed

subsection \<open>Waste rates\<close>

lemma sum_list_delta:
  assumes "distinct ks" and "a \<in> set ks"
  shows "(\<Sum>k\<leftarrow>ks. if a = k then (b::nat) else 0) = b"
  using assms by (induction ks) auto

lemma sum_list_groups:
  fixes f :: "'a \<Rightarrow> nat"
  assumes "distinct ks" and "key ` set rows \<subseteq> set ks"
  shows "(\<Sum>k\<leftarrow>ks. sum_list (map f (filter (\<lambda>m. key m = k) rows))) = sum_list (map f rows)"
  using assms(2)
proof (induction rows)
  case Nil
  then show ?case by simp
next
  case (Cons r rows)
  have "(\<Sum>k\<leftarrow>ks. sum_list (map f (filter (\<lambda>m. key m = k) (r # rows))))
      = (\<Sum>k\<leftarrow>ks. (if key r = k then f r else 0) + sum_list (map f (filter (\<lambda>m. key m = k) rows)))"
    by (intro arg_cong [where f = sum_list] map_cong) simp_all
  also have "\<dots> = (\<Sum>k\<leftarrow>ks. if key r = k then f r else 0)
      + (\<Sum>k\<leftarrow>ks. sum_list (map f (filter (\<lambda>m. key m = k) rows)))"
    by (simp add: sum_list_addf)
  also have "\<dots> = f r + sum_list (map f rows)"
    using Cons assms(1) by (simp add: sum_list_delta)
  finally show ?case by simp
qed

lemma waste_frame_total_expired:
  "sum_list (map total_expired (waste_frame rows)) = sum_list (map units_expired rows)"
proof -
  have "map total_expired (waste_frame rows)
      = map (\<lambda>k. sum_list (map units_expired (filter (\<lambda>m. movement_key m = k) rows)))
          (sort (remdups (map movement_key rows)))"
    by (simp add: waste_frame_def waste_group_of_def Let_def comp_def)
  then show ?thesis
    using sum_list_groups [of "sort (remdups (map movement_key rows))" movement_key rows
        units_expired]
    by simp
qed

lemma waste_frame_total_collected:
  "sum_list (map total_collected (waste_frame rows)) = sum_list (map units_collected rows)"
proof -
  have "map total_collected (waste_frame rows)
      = map (\<lambda>k. sum_list (map units_collected (filter (\<lambda>m. movement_key m = k) rows)))
          (sort (remdups (map movement_key rows)))"
    by (simp add: waste_frame_def waste_group_of_def Let_def comp_def)
  then show ?thesis
    using sum_list_groups [of "sort (remdups (map movement_key rows))" movement_key rows
        units_collected]
    by simp
qed

lemma get_status_refines: "get_status r = wasteStatus r"
  by (simp add: get_status_def wasteStatus_def)

lemma waste_group_of_fields:
  "group_hospital_id (waste_group_of rows k) = fst k
   \<and> group_blood_type (waste_group_of rows k) = snd k
   \<and> total_expired (waste_group_of rows k)
       = sum_list (map units_expired (filter (\<lambda>m. movement_key m = k) rows))
   \<and> total_collected (waste_group_of rows k)
       = sum_list (map units_collected (filter (\<lambda>m. movement_key m = k) rows))
   \<and> waste_rate (waste_group_of rows k)
       = wasteRate (total_expired (waste_group_of rows k)) (total_collected (waste_group_of rows k))
   \<and> status (waste_group_of rows k) = wasteStatus (waste_rate (waste_group_of rows k))"
  by (simp add: waste_group_of_def Let_def wasteRate_def get_status_refines)

lemma waste_frame_keys:
  "map (\<lambda>g. (group_hospital_id g, group_blood_type g)) (waste_frame rows)
     = sort (remdups (map movement_key rows))"
  by (simp add: waste_frame_def comp_def waste_group_of_fields)

lemma overall_rate_refines:
  "overall_rate df = wasteRate (sum_list (map total_expired df)) (sum_list (map total_collected df))"
  by (simp add: overall_rate_def wasteRate_def)

lemma waste_frame_groups:
  assumes "g \<in> set (waste_frame rows)"
  shows "total_expired g = sum_list (map units_expired
            (filter (\<lambda>m. movement_key m = (group_hospital_id g, group_blood_type g)) rows))
    \<and> total_collected g = sum_list (map units_collected
            (filter (\<lambda>m. movement_key m = (group_hospital_id g, group_blood_type g)) rows))
    \<and> waste_rate g = wasteRate (total_expired g) (total_collected g)
    \<and> status g = wasteStatus (waste_rate g)"
proof -
  from assms obtain k where g: "g = waste_group_of rows k"
    by (auto simp: waste_frame_def)
  have k: "(group_hospital_id g, group_blood_type g) = k"
    using waste_group_of_fields [of rows k] by (simp add: g)
  show ?thesis
    unfolding k using waste_group_of_fields [of rows k] by (simp add: g)
qed

lemma movement_rows_filter:
  "movement_rows movements hid bt sd ed =
     filter (\<lambda>m. (case hid of None \<Rightarrow> True | Some h \<Rightarrow> h = [] \<or> movement_hospital_id m = h)
                \<and> (case bt of None \<Rightarrow> True | Some b \<Rightarrow> b = [] \<or> movement_blood_type m = b)
                \<and> (case sd of None \<Rightarrow> True | Some s \<Rightarrow> s = [] \<or> s \<le> movement_date m)
                \<and> (case ed of None \<Rightarrow> True | Some s \<Rightarrow> s = [] \<or> movement_date m \<le> s))
       movements"
  unfolding movement_rows_def
  by (intro filter_cong refl)
    (auto simp: equals_filter_def since_filter_def until_filter_def truthy_def
      split: option.splits)

text \<open>
  The entries of the report, group by group: hospital, blood type, counts and status as
  computed, the rate within half a thousandth of the rate computed.
\<close>

lemma waste_entries_near:
  "list_all2 (\<lambda>e g. entry_hospital_id e = group_hospital_id g
        \<and> entry_blood_type e = group_blood_type g
        \<and> entry_units_expired e = total_expired g
        \<and> entry_total_units e = total_collected g
        \<and> entry_status e = wasteStatus (wasteRate (total_expired g) (total_collected g))
        \<and> \<bar>entry_waste_rate e - wasteRate (total_expired g) (total_collected g)\<bar>
            \<le> 1 / 2000)
     (map waste_entry_of (waste_frame rows)) (waste_frame rows)"
  unfolding list_all2_map1 list_all2_same
proof (intro ballI)
  fix g
  assume "g \<in> set (waste_frame rows)"
  note g = waste_frame_groups [OF this]
  have "\<bar>py_round (waste_rate g) 3 - waste_rate g\<bar> \<le> 1 / 2000"
    using py_round_near [of "waste_rate g" 3] by simp
  then show "entry_hospital_id (waste_entry_of g) = group_hospital_id g
        \<and> entry_blood_type (waste_entry_of g) = group_blood_type g
        \<and> entry_units_expired (waste_entry_of g) = total_expired g
        \<and> entry_total_units (waste_entry_of g) = total_collected g
        \<and> entry_status (waste_entry_of g)
            = wasteStatus (wasteRate (total_expired g) (total_collected g))
        \<and> \<bar>entry_waste_rate (waste_entry_of g)
             - wasteRate (total_expired g) (total_collected g)\<bar> \<le> 1 / 2000"
    using g by (simp add: waste_entry_of_def)
qed

lemma calculate_waste_rates_report:
  "(waste_frame (movement_rows movements hid bt sd ed) = [] \<longrightarrow>
      waste_rates (calculate_waste_rates movements hid bt sd ed) = []
    \<and> overall_waste_rate (calculate_waste_rates movements hid bt sd ed) = 0)
   \<and> (waste_frame (movement_rows movements hid bt sd ed) \<noteq> [] \<longrightarrow>
      waste_rates (calculate_waste_rates movements hid bt sd ed)
        = map waste_entry_of (waste_frame (movement_rows movements hid bt sd ed))
    \<and> \<bar>overall_waste_rate (calculate_waste_rates movements hid bt sd ed)
         - overall_rate (waste_frame (movement_rows movements hid bt sd ed))\<bar> \<le> 1 / 2000)"
proof -
  have "\<bar>py_round x 3 - x\<bar> \<le> 1 / 2000" for x
    using py_round_near [of x 3] by simp
  then show ?thesis
    by (simp add: calculate_waste_rates_def Let_def)
qed

text \<open>
  C8.  The records a query selects are those of the hospital, the blood type and the date
  window asked for.  Grouped by hospital and blood type, each group carries the sums of
  its records; its waste rate is \<open>total_expired / (total_collected + 1)\<close> and its status
  is LOW below 0.05, ACCEPTABLE below 0.10, HIGH below 0.20 and CRITICAL otherwise.  The
  overall rate is the sum of the expired units over the sum of the collected units plus 1.
  The report returned has one entry for each group, with that status and those counts, and
  the rates within half a thousandth of the rates computed.  A group with 250 units
  collected and 15 expired has the rate \<open>15/251\<close> and the status ACCEPTABLE.
\<close>

theorem waste_rates_formula:
  "movement_rows movements hid bt sd ed =
     filter (\<lambda>m. (case hid of None \<Rightarrow> True | Some h \<Rightarrow> h = [] \<or> movement_hospital_id m = h)
                \<and> (case bt of None \<Rightarrow> True | Some b \<Rightarrow> b = [] \<or> movement_blood_type m = b)
                \<and> (case sd of None \<Rightarrow> True | Some s \<Rightarrow> s = [] \<or> s \<le> movement_date m)
                \<and> (case ed of None \<Rightarrow> True | Some s \<Rightarrow> s = [] \<or> movement_date m \<le> s))
       movements
   \<and> map (\<lambda>g. (group_hospital_id g, group_blood_type g))
        (waste_frame (movement_rows movements hid bt sd ed))
       = sort (remdups (map movement_key (movement_rows movements hid bt sd ed)))
   \<and> (\<forall>g \<in> set (waste_frame (movement_rows movements hid bt sd ed)).
         total_expired g = sum_list (map units_expired
            (filter (\<lambda>m. movement_key m = (group_hospital_id g, group_blood_type g))
               (movement_rows movements hid bt sd ed)))
       \<and> total_collected g = sum_list (map units_collected
            (filter (\<lambda>m. movement_key m = (group_hospital_id g, group_blood_type g))
               (movement_rows movements hid bt sd ed)))
       \<and> waste_rate g = wasteRate (total_expired g) (total_collected g)
       \<and> status g = wasteStatus (wasteRate (total_expired g) (total_collected g)))
   \<and> overall_rate (waste_frame (movement_rows movements hid bt sd ed))
       = wasteRate (sum_list (map units_expired (movement_rows movements hid bt sd ed)))
           (sum_list (map units_collected (movement_rows movements hid bt sd ed)))
   \<and> (waste_frame (movement_rows movements hid bt sd ed) = [] \<longrightarrow>
        waste_rates (calculate_waste_rates movements hid bt sd ed) = []
      \<and> overall_waste_rate (calculate_waste_rates movements hid bt sd ed) = 0)
   \<and> (waste_frame (movement_rows movements hid bt sd ed) \<noteq> [] \<longrightarrow>
        list_all2 (\<lambda>e g. entry_hospital_id e = group_hospital_id g
              \<and> entry_blood_type e = group_blood_type g
              \<and> entry_units_expired e = total_expired g
              \<and> entry_total_units e = total_collected g
              \<and> entry_status e = wasteStatus (wasteRate (total_expired g) (total_collected g))
              \<and> \<bar>entry_waste_rate e - wasteRate (total_expired g) (total_collected g)\<bar>
                  \<le> 1 / 2000)
          (waste_rates (calculate_waste_rates movements hid bt sd ed))
          (waste_frame (movement_rows movements hid bt sd ed))
      \<and> \<bar>overall_waste_rate (calculate_waste_rates movements hid bt sd ed)
           - wasteRate (sum_list (map units_expired (movement_rows movements hid bt sd ed)))
               (sum_list (map units_collected (movement_rows movements hid bt sd ed)))\<bar>
          \<le> 1 / 2000)
   \<and> wasteRate 15 250 = 15 / 251
   \<and> wasteStatus (wasteRate 15 250) = ''ACCEPTABLE''"
proof (intro conjI ballI impI)
  let ?rows = "movement_rows movements hid bt sd ed"
  let ?df = "waste_frame ?rows"
  let ?rep = "calculate_waste_rates movements hid bt sd ed"
  have o: "overall_rate ?df
      = wasteRate (sum_list (map units_expired ?rows)) (sum_list (map units_collected ?rows))"
    by (simp only: overall_rate_refines waste_frame_total_expired waste_frame_total_collected)
  show "?rows =
     filter (\<lambda>m. (case hid of None \<Rightarrow> True | Some h \<Rightarrow> h = [] \<or> movement_hospital_id m = h)
                \<and> (case bt of None \<Rightarrow> True | Some b \<Rightarrow> b = [] \<or> movement_blood_type m = b)
                \<and> (case sd of None \<Rightarrow> True | Some s \<Rightarrow> s = [] \<or> s \<le> movement_date m)
                \<and> (case ed of None \<Rightarrow> True | Some s \<Rightarrow> s = [] \<or> movement_date m \<le> s))
       movements"
    by (rule movement_rows_filter)
  show "map (\<lambda>g. (group_hospital_id g, group_blood_type g)) ?df
       = sort (remdups (map movement_key ?rows))"
    by (rule waste_frame_keys)
  show "overall_rate ?df
      = wasteRate (sum_list (map units_expired ?rows)) (sum_list (map units_collected ?rows))"
    by (rule o)
  show "wasteRate 15 250 = 15 / 251"
    by (simp add: wasteRate_def)
  show "wasteStatus (wasteRate 15 250) = ''ACCEPTABLE''"
    by (simp add: wasteRate_def wasteStatus_def)
  {
    fix g
    assume "g \<in> set ?df"
    note g = waste_frame_groups [OF this]
    from g show "total_expired g = sum_list (map units_expired
            (filter (\<lambda>m. movement_key m = (group_hospital_id g, group_blood_type g)) ?rows))"
      by (rule conjunct1)
    from g show "total_collected g = sum_list (map units_collected
            (filter (\<lambda>m. movement_key m = (group_hospital_id g, group_blood_type g)) ?rows))"
      by (rule conjunct2 [THEN conjunct1])
    from g show "waste_rate g = wasteRate (total_expired g) (total_collected g)"
      by (rule conjunct2 [THEN conjunct2, THEN conjunct1])
    from g show "status g = wasteStatus (wasteRate (total_expired g) (total_collected g))"
      by simp
  }
  {
    assume e: "?df = []"
    from calculate_waste_rates_report [of movements hid bt sd ed] e
    show "waste_rates ?rep = []" and "overall_waste_rate ?rep = 0"
      by simp_all
  }
  {
    assume ne: "?df \<noteq> []"
    note r = calculate_waste_rates_report [of movements hid bt sd ed, THEN conjunct2,
        rule_format, OF ne]
    show "list_all2 (\<lambda>e g. entry_hospital_id e = group_hospital_id g
              \<and> entry_blood_type e = group_blood_type g
              \<and> entry_units_expired e = total_expired g
              \<and> entry_total_units e = total_collected g
              \<and> entry_status e = wasteStatus (wasteRate (total_expired g) (total_collected g))
              \<and> \<bar>entry_waste_rate e - wasteRate (total_expired g) (total_collected g)\<bar>
                  \<le> 1 / 2000)
          (waste_rates ?rep) ?df"
      unfolding r [THEN conjunct1] by (rule waste_entries_near)
    show "\<bar>overall_waste_rate ?rep
           - wasteRate (sum_list (map units_expired ?rows))
               (sum_list (map units_collected ?rows))\<bar> \<le> 1 / 2000"
      using r [THEN conjunct2] by (simp only: o)
  }
qed

lemma example_frame:
  "waste_frame (movement_rows example_movements None None None None) =
    [\<lparr>group_hospital_id = ''H001'', group_blood_type = ''O+'', total_collected = 250,
      total_used = 210, total_expired = 15, waste_rate = 15 / 251, status = ''ACCEPTABLE''\<rparr>,
     \<lparr>group_hospital_id = ''H002'', group_blood_type = ''A-'', total_collected = 40,
      total_used = 20, total_expired = 12, waste_rate = 12 / 41, status = ''CRITICAL''\<rparr>]"
  by (simp add: movement_rows_def example_movements_def waste_frame_def waste_group_of_def
      movement_key_def equals_filter_def since_filter_def until_filter_def truthy_def
      get_status_def Let_def less_eq_prod_def less_prod_def)

lemma example_window:
  "movement_rows example_movements (Some ''H001'') None (Some ''2024-01-20'') None
     = [\<lparr>movement_hospital_id = ''H001'', movement_blood_type = ''O+'', units_collected = 150,
         units_used = 120, units_expired = 10, movement_date = ''2024-02-01''\<rparr>]"
  by (simp add: movement_rows_def example_movements_def equals_filter_def since_filter_def
      until_filter_def truthy_def)

theorem waste_rates_formula_witness:
  "movement_rows example_movements (Some ''H001'') None (Some ''2024-01-20'') None
     = [\<lparr>movement_hospital_id = ''H001'', movement_blood_type = ''O+'', units_collected = 150,
         units_used = 120, units_expired = 10, movement_date = ''2024-02-01''\<rparr>]
   \<and> waste_frame (movement_rows example_movements None None None None) \<noteq> []
   \<and> map (\<lambda>g. (group_hospital_id g, group_blood_type g))
        (waste_frame (movement_rows example_movements None None None None))
       = [(''H001'', ''O+''), (''H002'', ''A-'')]
   \<and> map total_collected (waste_frame (movement_rows example_movements None None None None))
       = [250, 40]
   \<and> map total_expired (waste_frame (movement_rows example_movements None None None None))
       = [15, 12]
   \<and> map waste_rate (waste_frame (movement_rows example_movements None None None None))
       = [wasteRate 15 250, wasteRate 12 40]
   \<and> map entry_status (waste_rates (calculate_waste_rates example_movements None None None None))
       = [''ACCEPTABLE'', ''CRITICAL'']
   \<and> map entry_waste_rate (waste_rates (calculate_waste_rates example_movements None None None None))
       = [0.06, 0.293]
   \<and> overall_rate (waste_frame (movement_rows example_movements None None None None))
       = wasteRate 27 290
   \<and> \<bar>overall_waste_rate (calculate_waste_rates example_movements None None None None)
        - wasteRate 27 290\<bar> \<le> 1 / 2000"
proof -
  let ?df = "waste_frame (movement_rows example_movements None None None None)"
  let ?rep = "calculate_waste_rates example_movements None None None None"
  note t = waste_rates_formula [of example_movements None None None None]
  have ne: "?df \<noteq> []"
    by (simp add: example_frame)
  have rows: "movement_rows example_movements None None None None = example_movements"
    by (simp add: movement_rows_def equals_filter_def since_filter_def until_filter_def
        truthy_def)
  have sums: "sum_list (map units_expired example_movements) = 27"
    "sum_list (map units_collected example_movements) = 290"
    by (simp_all add: example_movements_def)
  have o: "overall_rate ?df = wasteRate 27 290"
    using t [THEN conjunct2, THEN conjunct2, THEN conjunct2, THEN conjunct1]
    by (simp only: rows sums)
  note e = t [THEN conjunct2, THEN conjunct2, THEN conjunct2, THEN conjunct2, THEN conjunct2,
      THEN conjunct1, rule_format, OF ne]
  have r: "\<bar>overall_waste_rate ?rep - wasteRate 27 290\<bar> \<le> 1 / 2000"
    using e [THEN conjunct2] by (simp only: rows sums)
  have cols: "map (\<lambda>g. (group_hospital_id g, group_blood_type g)) ?df
      = [(''H001'', ''O+''), (''H002'', ''A-'')]"
    "map total_collected ?df = [250, 40]" "map total_expired ?df = [15, 12]"
    "map waste_rate ?df = [wasteRate 15 250, wasteRate 12 40]"
    by (simp_all add: example_frame wasteRate_def)
  have p: "py_round (15 / 251) 3 = 0.06" "py_round (12 / 41) 3 = 0.293"
    by (simp_all add: py_round_def round_half_even_def Let_def)
  have entries: "map entry_status (waste_rates ?rep) = [''ACCEPTABLE'', ''CRITICAL'']"
    "map entry_waste_rate (waste_rates ?rep) = [0.06, 0.293]"
    by (simp_all add: calculate_waste_rates_def Let_def example_frame waste_entry_of_def p)
  from example_window ne cols entries o r show ?thesis
    by (intro conjI)
qed

subsection \<open>Demand forecast\<close>

lemma foldl_add_sum:
  "foldl (\<lambda>a e. a + g e) acc es = acc + sum_list (map g es)" for acc :: real
  by (induction es arbitrary: acc) simp_all

lemma event_adjustment_sum:
  "event_adjustment avg es = (\<Sum>e\<leftarrow>es. avg * (impact_level e - 1.0))"
  by (simp add: event_adjustment_def foldl_add_sum)

lemma forecast_demand_unfold:
  "forecast_demand p usage_history events hid bt days
     = map (forecast_of days (upcoming_events p events))
         (demand_frame (usage_rows p usage_history hid bt))"
  by (simp add: forecast_demand_def Let_def)

lemma total_forecast_sum:
  "total_forecast avg days es = avg * of_int days + (\<Sum>e\<leftarrow>es. avg * (impact_level e - 1.0))"
  by (simp only: total_forecast_def Let_def event_adjustment_sum)

lemma forecast_trends:
  "map demand_trend (map (forecast_of days es) df) = replicate (length df) ''STABLE''"
  by (induction df) (simp_all add: forecast_of_def calculate_trend_def)

text \<open>
  The entries returned, group by group: hospital, blood type and horizon as given, the
  trend \<^verbatim>\<open>STABLE\<close>, the forecast within half a tenth of the forecast computed.
\<close>

lemma forecasts_near:
  "list_all2 (\<lambda>f g. forecast_hospital_id f = demand_hospital_id g
        \<and> forecast_blood_type f = demand_blood_type g
        \<and> forecast_days f = days
        \<and> demand_trend f = ''STABLE''
        \<and> \<bar>next_days_forecast f - total_forecast (avg_daily_demand g) days es\<bar> \<le> 1 / 20)
     (map (forecast_of days es) df) df"
proof -
  have "\<bar>py_round x 1 - x\<bar> \<le> 1 / 20" for x
    using py_round_near [of x 1] by simp
  then show ?thesis
    by (simp add: list_all2_map1 list_all2_same forecast_of_def calculate_trend_def)
qed

text \<open>
  C9.  For every group and every horizon \<open>days\<close>, the forecast is
  \<open>avg_daily_demand * days\<close> plus \<open>avg_daily_demand * (impact_level - 1.0)\<close> for each
  event dated from today to 30 days ahead, a window that does not depend on \<open>days\<close>; the
  entry returned for the group carries it to one decimal, within half a tenth; and the
  trend reported is always \<^verbatim>\<open>STABLE\<close>.
\<close>

theorem demand_forecast_formula:
  "total_forecast avg days (upcoming_events p events)
     = avg * of_int days
       + (\<Sum>e\<leftarrow>filter (\<lambda>e. sqlite_date p 0 \<le> event_date e \<and> event_date e \<le> sqlite_date p 30)
              events. avg * (impact_level e - 1.0))
   \<and> list_all2 (\<lambda>f g. forecast_hospital_id f = demand_hospital_id g
          \<and> forecast_blood_type f = demand_blood_type g
          \<and> forecast_days f = days
          \<and> demand_trend f = ''STABLE''
          \<and> \<bar>next_days_forecast f
               - total_forecast (avg_daily_demand g) days (upcoming_events p events)\<bar> \<le> 1 / 20)
       (forecast_demand p usage_history events hid bt days)
       (demand_frame (usage_rows p usage_history hid bt))
   \<and> map demand_trend (forecast_demand p usage_history events hid bt days)
     = replicate (length (demand_frame (usage_rows p usage_history hid bt))) ''STABLE''
   \<and> calculate_trend hospital blood = ''STABLE''"
proof (intro conjI)
  show "total_forecast avg days (upcoming_events p events)
     = avg * of_int days
       + (\<Sum>e\<leftarrow>filter (\<lambda>e. sqlite_date p 0 \<le> event_date e \<and> event_date e \<le> sqlite_date p 30)
              events. avg * (impact_level e - 1.0))"
    by (simp only: total_forecast_sum upcoming_events_def)
  show "list_all2 (\<lambda>f g. forecast_hospital_id f = demand_hospital_id g
          \<and> forecast_blood_type f = demand_blood_type g
          \<and> forecast_days f = days
          \<and> demand_trend f = ''STABLE''
          \<and> \<bar>next_days_forecast f
               - total_forecast (avg_daily_demand g) days (upcoming_events p events)\<bar> \<le> 1 / 20)
       (forecast_demand p usage_history events hid bt days)
       (demand_frame (usage_rows p usage_history hid bt))"
    unfolding forecast_demand_unfold by (rule forecasts_near)
  show "map demand_trend (forecast_demand p usage_history events hid bt days)
     = replicate (length (demand_frame (usage_rows p usage_history hid bt))) ''STABLE''"
    by (simp only: forecast_demand_unfold forecast_trends)
  show "calculate_trend hospital blood = ''STABLE''"
    by (simp add: calculate_trend_def)
qed

lemma example_demand_frame:
  "demand_frame (usage_rows example_platform example_usage None None)
     = [\<lparr>demand_hospital_id = ''H001'', demand_blood_type = ''O+'', avg_daily_demand = 12,
         days_of_data = 2, peak_usage = 14\<rparr>]"
  by (simp add: demand_frame_def usage_rows_def example_usage_def example_platform_def
      example_sqlite_date_def equals_filter_def truthy_def usage_key_def demand_group_of_def
      Let_def)

lemma example_upcoming:
  "filter (\<lambda>e. sqlite_date example_platform 0 \<le> event_date e
        \<and> event_date e \<le> sqlite_date example_platform 30) example_events
     = [\<lparr>event_name = ''Marathon'', event_date = ''2024-03-01'', impact_level = 1.5\<rparr>]"
  by (simp add: example_events_def example_platform_def example_sqlite_date_def)

theorem demand_forecast_formula_witness:
  "total_forecast 12 7 (upcoming_events example_platform example_events) = 90
   \<and> total_forecast 12 60 (upcoming_events example_platform example_events) = 726
   \<and> map forecast_hospital_id
        (forecast_demand example_platform example_usage example_events None None 7) = [''H001'']
   \<and> map next_days_forecast
        (forecast_demand example_platform example_usage example_events None None 7) = [90]
   \<and> map demand_trend (forecast_demand example_platform example_usage example_events None None 7)
       = [''STABLE'']"
proof -
  note t7 = demand_forecast_formula [of 12 7 example_platform example_events example_usage None None]
  note t60 = demand_forecast_formula [of 12 60 example_platform example_events example_usage None None]
  have a: "total_forecast 12 7 (upcoming_events example_platform example_events) = 90"
    using t7 [THEN conjunct1] by (simp add: example_upcoming)
  have b: "total_forecast 12 60 (upcoming_events example_platform example_events) = 726"
    using t60 [THEN conjunct1] by (simp add: example_upcoming)
  have r: "py_round 90 (Suc 0) = 90"
    by (simp add: py_round_def round_half_even_def Let_def)
  have c: "map forecast_hospital_id
      (forecast_demand example_platform example_usage example_events None None 7) = [''H001'']"
    "map next_days_forecast
      (forecast_demand example_platform example_usage example_events None None 7) = [90]"
    by (simp_all add: forecast_demand_unfold example_demand_frame forecast_of_def a r)
  have d: "map demand_trend
      (forecast_demand example_platform example_usage example_events None None 7) = [''STABLE'']"
    using t7 [THEN conjunct2, THEN conjunct2, THEN conjunct1] by (simp add: example_demand_frame)
  from a b c d show ?thesis
    by (intro conjI)
qed

end
